theory Spec2Isabelle
  imports Complex_Main
begin

section \<open>The matching-and-event service of gym\_api/app.py\<close>

text \<open>
  The service keeps two module-level variables (\<open>EVENTS\<close>, \<open>LAST_SEEN\<close>) and two JSON
  files (\<open>data/events.json\<close>, \<open>data/embeddings/gallery.json\<close>). Every handler is modelled
  as a function from the state before the call to its outcome and the state after it.

  Numbers: Python floats and numpy float32 values are idealised as real numbers, so
  rounding error and overflow of the arithmetic are not part of the model. Where the
  code can receive a float that is not a number at all (the \<open>score\<close> of a posted event,
  the \<open>thr\<close> of a match request), the value is a \<open>pyfloat\<close>, which has NaN and the
  infinities.
\<close>

subsection \<open>Values\<close>

datatype pyfloat = Finite real | PosInf | NegInf | NaN

datatype exn = ValueError string | JSONDecodeError

text \<open>\<open>str(e)\<close> of an exception, as \<open>match\<close> puts it into its error body.\<close>

fun str_of_exn :: "exn \<Rightarrow> string" where
  "str_of_exn (ValueError msg) = msg"
| "str_of_exn JSONDecodeError = ''Expecting value''"

text \<open>
  The body of a \<open>JSONResponse\<close>: \<open>{"error": msg}\<close>, or the \<open>{"detail": [...]}\<close> of the
  missing name (type, loc, msg).
\<close>

datatype body = Error string | Detail string "string list" string

text \<open>
  A handler raises (the exception leaves the handler: the server answers 500), returns
  a \<open>JSONResponse\<close> with a status code, or returns its payload (200).
\<close>

datatype 'a result = Raises exn | JSONResponse body nat | Returns 'a

text \<open>A file: absent, present with text that \<open>json.loads\<close> refuses, or holding a value.\<close>

datatype 'a json_file = Missing | Unparsable | Holds 'a

type_synonym vec = "real list"

text \<open>A Python \<open>dict\<close>: keys in insertion order, each key once.\<close>

type_synonym ('k, 'v) dict = "('k \<times> 'v) list"

text \<open>\<open>d[k] = v\<close>: an existing key keeps its place, a new key goes last.\<close>

fun dict_set :: "'k \<Rightarrow> 'v \<Rightarrow> ('k, 'v) dict \<Rightarrow> ('k, 'v) dict" where
  "dict_set k v [] = [(k, v)]"
| "dict_set k v ((k', v') # d) = (if k' = k then (k, v) # d else (k', v') # dict_set k v d)"

definition dict_get :: "('k, 'v) dict \<Rightarrow> 'k \<Rightarrow> 'v option" where
  "dict_get d k = map_of d k"

text \<open>The dicts appended to \<open>EVENTS\<close>: keys person, score, camera, timestamp.\<close>

record event_dict =
  d_person :: string
  d_score :: pyfloat
  d_camera :: string
  d_timestamp :: string

text \<open>\<open>class Event(BaseModel)\<close>, the body of \<open>POST /events\<close>.\<close>

record Event =
  person :: string
  score :: pyfloat
  camera :: string
  timestamp :: "string option"

text \<open>A detected face: \<open>bbox\<close> (x1, y1, x2, y2) and \<open>embedding\<close>.\<close>

record face =
  bbox :: "real \<times> real \<times> real \<times> real"
  embedding :: vec

subsection \<open>State and environment\<close>

record state =
  EVENTS :: "event_dict list"
  LAST_SEEN :: "string \<times> string \<Rightarrow> real option"
  EVENTS_PATH :: "event_dict list json_file"
  GALLERY_PATH :: "(string, vec) dict json_file"

text \<open>
  What a call reads from outside the program: the clock and the libraries.
  \<open>fromisoformat_ts t\<close> is \<open>datetime.fromisoformat(t).timestamp()\<close>, which raises
  \<open>ValueError\<close> on a string that is no ISO date; \<open>now_ts\<close> is
  \<open>datetime.now(timezone.utc).timestamp()\<close>; \<open>utcnow_iso\<close> is
  \<open>datetime.utcnow().isoformat()\<close>; \<open>imdecode\<close> is \<open>cv2.imdecode\<close> on the bytes, None
  when they are no image; \<open>face_get\<close> is \<open>face_app.get\<close>.
\<close>

record ('bytes, 'img) env =
  fromisoformat_ts :: "string \<Rightarrow> exn + real"
  now_ts :: real
  utcnow_iso :: string
  imdecode :: "'bytes \<Rightarrow> 'img option"
  face_get :: "'img \<Rightarrow> face list"

subsection \<open>Events log, debounce, persistence\<close>

definition DEDUPE_WINDOW_SEC :: real where
  "DEDUPE_WINDOW_SEC = 30"

definition load_events :: "state \<Rightarrow> state" where
  "load_events s =
     (case EVENTS_PATH s of
        Holds evs \<Rightarrow> s\<lparr>EVENTS := evs\<rparr>
      | Unparsable \<Rightarrow> s\<lparr>EVENTS := []\<rparr>
      | Missing \<Rightarrow> s\<lparr>EVENTS := []\<rparr>)"

definition save_events :: "state \<Rightarrow> state" where
  "save_events s = s\<lparr>EVENTS_PATH := Holds (EVENTS s)\<rparr>"

text \<open>
  \<open>now = datetime.fromisoformat(ts_iso) if ts_iso else datetime.now(timezone.utc)\<close>:
  None and the empty string are both falsy.
\<close>

definition event_time :: "('b, 'i) env \<Rightarrow> string option \<Rightarrow> exn + real" where
  "event_time env ts_iso =
     (case ts_iso of
        None \<Rightarrow> Inr (now_ts env)
      | Some t \<Rightarrow> if t = [] then Inr (now_ts env) else fromisoformat_ts env t)"

definition should_log ::
  "('b, 'i) env \<Rightarrow> string \<Rightarrow> string \<Rightarrow> string option \<Rightarrow> state \<Rightarrow> exn + (bool \<times> state)" where
  "should_log env person' camera' ts_iso s =
     (case event_time env ts_iso of
        Inl e \<Rightarrow> Inl e
      | Inr now \<Rightarrow>
          (let key = (person', camera') in
           case LAST_SEEN s key of
             Some last_ts \<Rightarrow>
               (if now - last_ts < DEDUPE_WINDOW_SEC then Inr (False, s)
                else Inr (True, s\<lparr>LAST_SEEN := (LAST_SEEN s)(key \<mapsto> now)\<rparr>))
           | None \<Rightarrow> Inr (True, s\<lparr>LAST_SEEN := (LAST_SEEN s)(key \<mapsto> now)\<rparr>)))"

text \<open>The module's start: \<open>EVENTS = []\<close>, \<open>LAST_SEEN = {}\<close>, then \<open>load_events()\<close>.\<close>

definition startup :: "event_dict list json_file \<Rightarrow> (string, vec) dict json_file \<Rightarrow> state" where
  "startup ef gf =
     load_events \<lparr>EVENTS = [], LAST_SEEN = Map.empty, EVENTS_PATH = ef, GALLERY_PATH = gf\<rparr>"

text \<open>
  Python's \<open>round(x, ndigits)\<close> on a float: to the nearest multiple of \<open>10 ^ -ndigits\<close>,
  a tie going to the even one; NaN and the infinities come back unchanged.
\<close>

definition round_half_even :: "real \<Rightarrow> int" where
  "round_half_even x =
     (let f = \<lfloor>x\<rfloor>; d = x - of_int f in
      if d < 1 / 2 then f else if 1 / 2 < d then f + 1 else if even f then f else f + 1)"

definition round_real :: "real \<Rightarrow> nat \<Rightarrow> real" where
  "round_real x ndigits = of_int (round_half_even (x * 10 ^ ndigits)) / 10 ^ ndigits"

fun py_round :: "pyfloat \<Rightarrow> nat \<Rightarrow> pyfloat" where
  "py_round (Finite x) ndigits = Finite (round_real x ndigits)"
| "py_round PosInf ndigits = PosInf"
| "py_round NegInf ndigits = NegInf"
| "py_round NaN ndigits = NaN"

subsection \<open>POST /events, GET /events, POST /events/clear, GET /events/csv\<close>

record add_event_response =
  status :: string
  count :: nat

text \<open>\<open>ts = ev.timestamp or datetime.utcnow().isoformat()\<close>\<close>

definition event_ts :: "('b, 'i) env \<Rightarrow> Event \<Rightarrow> string" where
  "event_ts env ev =
     (case timestamp ev of
        None \<Rightarrow> utcnow_iso env
      | Some t \<Rightarrow> if t = [] then utcnow_iso env else t)"

definition add_event :: "('b, 'i) env \<Rightarrow> Event \<Rightarrow> state \<Rightarrow> add_event_response result \<times> state" where
  "add_event env ev s =
     (let ts = event_ts env ev in
      case should_log env (person ev) (camera ev) (Some ts) s of
        Inl e \<Rightarrow> (Raises e, s)
      | Inr (True, s1) \<Rightarrow>
          (let s2 = s1\<lparr>EVENTS := EVENTS s1 @
                      [\<lparr>d_person = person ev, d_score = py_round (score ev) 3,
                        d_camera = camera ev, d_timestamp = ts\<rparr>]\<rparr>;
               s3 = save_events s2
           in (Returns \<lparr>status = ''logged'', count = length (EVENTS s3)\<rparr>, s3))
      | Inr (False, s1) \<Rightarrow>
          (Returns \<lparr>status = ''skipped_duplicate'', count = length (EVENTS s1)\<rparr>, s1))"

definition list_events :: "state \<Rightarrow> event_dict list result \<times> state" where
  "list_events s = (Returns (rev (EVENTS s)), s)"

definition clear_events :: "state \<Rightarrow> string result \<times> state" where
  "clear_events s = (Returns ''cleared'', save_events (s\<lparr>EVENTS := []\<rparr>))"

text \<open>
  What \<open>events_csv\<close> hands to the CSV writer: the field names of the header, then one
  row per event in the order of \<open>EVENTS\<close>.
\<close>

definition events_csv ::
  "state \<Rightarrow> (string list \<times> (string \<times> string \<times> string \<times> pyfloat) list) result \<times> state" where
  "events_csv s =
     (Returns ([''timestamp'', ''camera'', ''person'', ''score''],
               map (\<lambda>e. (d_timestamp e, d_camera e, d_person e, d_score e)) (EVENTS s)), s)"

subsection \<open>Face model\<close>

definition norm_l2 :: "vec \<Rightarrow> real" where
  "norm_l2 v = sqrt (\<Sum>x\<leftarrow>v. x * x)"

text \<open>\<open>a / (np.linalg.norm(a) + 1e-9)\<close>\<close>

definition unit :: "vec \<Rightarrow> vec" where
  "unit a = map (\<lambda>x. x / (norm_l2 a + 1 / 1000000000)) a"

text \<open>\<open>np.dot\<close> of two one-dimensional arrays raises when their lengths differ.\<close>

definition cosine :: "vec \<Rightarrow> vec \<Rightarrow> exn + real" where
  "cosine a b =
     (let an = unit a; bn = unit b in
      if length an = length bn then Inr (\<Sum>(x, y)\<leftarrow>zip an bn. x * y)
      else Inl (ValueError ''shapes not aligned''))"

text \<open>Python's \<open>int\<close> on a float truncates towards zero.\<close>

definition py_int :: "real \<Rightarrow> int" where
  "py_int x = (if 0 \<le> x then \<lfloor>x\<rfloor> else \<lceil>x\<rceil>)"

definition area :: "face \<Rightarrow> int" where
  "area f =
     (case bbox f of (x1, y1, x2, y2) \<Rightarrow>
        max 0 (py_int x2 - py_int x1) * max 0 (py_int y2 - py_int y1))"

text \<open>
  Python's \<open>max(iterable, key=...)\<close> keeps the first of the items with the greatest key:
  the item held so far is replaced only by one whose key is strictly greater.
\<close>

fun max_from :: "('a \<Rightarrow> 'k::linorder) \<Rightarrow> 'a \<Rightarrow> 'a list \<Rightarrow> 'a" where
  "max_from key best [] = best"
| "max_from key best (x # xs) = max_from key (if key best < key x then x else best) xs"

definition max_key :: "('a \<Rightarrow> 'k::linorder) \<Rightarrow> 'a list \<Rightarrow> exn + 'a" where
  "max_key key xs =
     (case xs of
        [] \<Rightarrow> Inl (ValueError ''max() arg is an empty sequence'')
      | x # rest \<Rightarrow> Inr (max_from key x rest))"

definition embed_image_bytes :: "('b, 'i) env \<Rightarrow> 'b \<Rightarrow> exn + vec" where
  "embed_image_bytes env b =
     (case imdecode env b of
        None \<Rightarrow> Inl (ValueError ''Cannot decode image'')
      | Some img \<Rightarrow>
          (let faces = face_get env img in
           if faces = [] then Inl (ValueError ''No face detected'')
           else
             (case max_key area faces of
                Inl e \<Rightarrow> Inl e
              | Inr f_big \<Rightarrow> Inr (embedding f_big))))"

subsection \<open>Gallery storage\<close>

definition read_gallery :: "state \<Rightarrow> exn + (string, vec) dict" where
  "read_gallery s =
     (case GALLERY_PATH s of
        Missing \<Rightarrow> Inr []
      | Unparsable \<Rightarrow> Inl JSONDecodeError
      | Holds d \<Rightarrow> Inr d)"

definition write_gallery :: "(string, vec) dict \<Rightarrow> state \<Rightarrow> state" where
  "write_gallery d s = s\<lparr>GALLERY_PATH := Holds d\<rparr>"

subsection \<open>POST /enroll\<close>

text \<open>The loop \<open>for uf in files: embs.append(embed_image_bytes(b))\<close>: the first image
  that \<open>embed_image_bytes\<close> refuses ends the loop with its exception.\<close>

fun embed_files :: "('b, 'i) env \<Rightarrow> 'b list \<Rightarrow> vec list \<Rightarrow> exn + vec list" where
  "embed_files env [] embs = Inr embs"
| "embed_files env (b # files) embs =
     (case embed_image_bytes env b of
        Inl e \<Rightarrow> Inl e
      | Inr v \<Rightarrow> embed_files env files (embs @ [v]))"

text \<open>
  \<open>np.mean(np.stack(embs, axis=0), axis=0)\<close>: \<open>np.stack\<close> raises unless all arrays have
  one shape; the mean along axis 0 adds the rows up, one after the other, and divides
  the sum by their number.
\<close>

definition np_stack :: "vec list \<Rightarrow> exn + vec list" where
  "np_stack arrays =
     (case arrays of
        [] \<Rightarrow> Inl (ValueError ''need at least one array to stack'')
      | a # rest \<Rightarrow>
          if list_all (\<lambda>v. length v = length a) rest then Inr arrays
          else Inl (ValueError ''all input arrays must have the same shape''))"

definition add_rows :: "vec \<Rightarrow> vec \<Rightarrow> vec" where
  "add_rows acc row = map (\<lambda>(x, y). x + y) (zip acc row)"

definition np_mean_axis0 :: "vec list \<Rightarrow> vec" where
  "np_mean_axis0 rows =
     map (\<lambda>x. x / real (length rows)) (foldl add_rows (hd rows) (tl rows))"

record enroll_response =
  enrolled :: string
  images :: nat
  people :: "string list"

definition enroll ::
  "('b, 'i) env \<Rightarrow> string \<Rightarrow> 'b list \<Rightarrow> state \<Rightarrow> enroll_response result \<times> state" where
  "enroll env name files s =
     (if name = [] then
        (JSONResponse (Detail ''missing'' [''body'', ''name''] ''Field required'') 422, s)
      else
        case read_gallery s of
          Inl e \<Rightarrow> (Raises e, s)
        | Inr gal \<Rightarrow>
            (case embed_files env files [] of
               Inl e \<Rightarrow> (Raises e, s)
             | Inr embs \<Rightarrow>
                 if embs = [] then (JSONResponse (Error ''no usable images'') 400, s)
                 else
                   (case np_stack embs of
                      Inl e \<Rightarrow> (Raises e, s)
                    | Inr rows \<Rightarrow>
                        (let avg = np_mean_axis0 rows;
                             gal' = dict_set name avg gal
                         in (Returns \<lparr>enrolled = name, images = length embs,
                                       people = map fst gal'\<rparr>,
                             write_gallery gal' s)))))"

subsection \<open>POST /match\<close>

text \<open>
  The dict comprehension \<open>{name: cosine(np.array(vec), q) for name, vec in gal.items()}\<close>,
  in the order of the gallery.
\<close>

fun score_all :: "vec \<Rightarrow> (string, vec) dict \<Rightarrow> (string, real) dict \<Rightarrow> exn + (string, real) dict" where
  "score_all q [] scores = Inr scores"
| "score_all q ((name, vec) # gal) scores =
     (case cosine vec q of
        Inl e \<Rightarrow> Inl e
      | Inr c \<Rightarrow> score_all q gal (dict_set name c scores))"

text \<open>\<open>best_score >= thr\<close> on floats: a comparison with NaN is false.\<close>

fun float_ge :: "real \<Rightarrow> pyfloat \<Rightarrow> bool" where
  "float_ge x (Finite t) = (t \<le> x)"
| "float_ge x PosInf = False"
| "float_ge x NegInf = True"
| "float_ge x NaN = False"

record match_response =
  scores :: "(string, real) dict"
  best_name :: string
  best_score :: real
  best_match :: bool
  thr :: pyfloat
  logged :: bool

text \<open>
  \<open>max(scores, key=scores.get)\<close> runs over the keys of \<open>scores\<close> and compares the values
  stored with them: over the items, it is the key of the first item with the greatest
  value.
\<close>

definition match ::
  "('b, 'i) env \<Rightarrow> 'b \<Rightarrow> pyfloat \<Rightarrow> string \<Rightarrow> state \<Rightarrow> match_response result \<times> state" where
  "match env file thr' camera' s =
     (case read_gallery s of
        Inl e \<Rightarrow> (Raises e, s)
      | Inr gal \<Rightarrow>
          if gal = [] then (JSONResponse (Error ''gallery empty, enroll first'') 400, s)
          else
            (case embed_image_bytes env file of
               Inl e \<Rightarrow> (JSONResponse (Error (str_of_exn e)) 400, s)
             | Inr q \<Rightarrow>
                 (case score_all q gal [] of
                    Inl e \<Rightarrow> (Raises e, s)
                  | Inr scores' \<Rightarrow>
                      (case max_key snd scores' of
                         Inl e \<Rightarrow> (Raises e, s)
                       | Inr (best_name', best_score') \<Rightarrow>
                           (let is_match = float_ge best_score' thr';
                                resp = \<lparr>scores = map (\<lambda>(k, v). (k, round_real v 3)) scores',
                                        best_name = best_name',
                                        best_score = round_real best_score' 3,
                                        best_match = is_match, thr = thr', logged = False\<rparr>
                            in
                              if is_match then
                                (let ts_iso = utcnow_iso env in
                                 case should_log env best_name' camera' (Some ts_iso) s of
                                   Inl e \<Rightarrow> (Raises e, s)
                                 | Inr (True, s1) \<Rightarrow>
                                     (let s2 = s1\<lparr>EVENTS := EVENTS s1 @
                                                 [\<lparr>d_person = best_name',
                                                   d_score = Finite (round_real best_score' 3),
                                                   d_camera = camera', d_timestamp = ts_iso\<rparr>]\<rparr>
                                      in (Returns (resp\<lparr>logged := True\<rparr>), save_events s2))
                                 | Inr (False, s1) \<Rightarrow> (Returns resp, s1))
                              else (Returns resp, s))))))"

subsection \<open>GET /health, and a request as a value\<close>

definition health :: "state \<Rightarrow> string result \<times> state" where
  "health s = (Returns ''ok'', s)"

datatype 'b request =
    Health
  | Enroll string "'b list"
  | Match 'b pyfloat string
  | ListEvents
  | AddEvent Event
  | ClearEvents
  | EventsCsv

text \<open>The state after a request; each request comes with what the outside holds then.\<close>

fun handle :: "('b, 'i) env \<times> 'b request \<Rightarrow> state \<Rightarrow> state" where
  "handle (env, Health) s = snd (health s)"
| "handle (env, Enroll name files) s = snd (enroll env name files s)"
| "handle (env, Match file thr' camera') s = snd (match env file thr' camera' s)"
| "handle (env, ListEvents) s = snd (list_events s)"
| "handle (env, AddEvent ev) s = snd (add_event env ev s)"
| "handle (env, ClearEvents) s = snd (clear_events s)"
| "handle (env, EventsCsv) s = snd (events_csv s)"

definition run :: "(('b, 'i) env \<times> 'b request) list \<Rightarrow> state \<Rightarrow> state" where
  "run reqs s = foldl (\<lambda>s r. handle r s) s reqs"

subsection \<open>The specification's words, and stand-ins for the outside\<close>

text \<open>
  The debounce rule as the specification words it: accept iff there is no prior record
  for the key, or the time elapsed since the prior record is at least the window of 30
  seconds.
\<close>

definition shouldAccept :: "real option \<Rightarrow> real \<Rightarrow> bool" where
  "shouldAccept prior t = (case prior of None \<Rightarrow> True | Some prev \<Rightarrow> 30 \<le> t - prev)"


text \<open>
  How a last-accepted time may change: it stays, or a time at least one window later
  replaces it.
\<close>

definition newer_or_same :: "real \<Rightarrow> real \<Rightarrow> bool" where
  "newer_or_same v v' = (v' = v \<or> (v < v' \<and> DEDUPE_WINDOW_SEC \<le> v' - v))"

text \<open>
  A clock and a camera for concrete runs. \<open>iso_table\<close> reads four ISO strings as seconds
  since the epoch and refuses every other string; the bytes of an upload stand for what
  they decode to: None for bytes that are no image, otherwise the faces in the image.
\<close>

definition iso_table :: "string \<Rightarrow> exn + real" where
  "iso_table t =
     (if t = ''1970-01-01T00:00:00+00:00'' then Inr 0
      else if t = ''1970-01-01T00:00:29.999+00:00'' then Inr (29999 / 1000)
      else if t = ''1970-01-01T00:00:30.001+00:00'' then Inr (30001 / 1000)
      else if t = ''1970-01-01T00:01:40+00:00'' then Inr 100
      else Inl (ValueError ''Invalid isoformat string''))"

definition test_env :: "(face list option, face list) env" where
  "test_env =
     \<lparr>fromisoformat_ts = iso_table, now_ts = 100, utcnow_iso = ''1970-01-01T00:01:40+00:00'',
      imdecode = (\<lambda>b. b), face_get = (\<lambda>img. img)\<rparr>"

definition face_x :: face where
  "face_x = \<lparr>bbox = (0, 0, 10, 10), embedding = [1, 0]\<rparr>"

definition face_y :: face where
  "face_y = \<lparr>bbox = (0, 0, 5, 5), embedding = [0, 1]\<rparr>"

definition s_empty :: state where
  "s_empty = startup Missing Missing"

definition s_bob :: state where
  "s_bob = s_empty\<lparr>LAST_SEEN := [(''bob'', ''cam1'') \<mapsto> 0]\<rparr>"

text \<open>A gallery whose two entries have one embedding: every query scores them alike.\<close>

definition s_tie :: state where
  "s_tie = s_empty\<lparr>GALLERY_PATH := Holds [(''alice'', [1, 0]), (''bob'', [1, 0])]\<rparr>"




definition nan_event :: Event where
  "nan_event = \<lparr>person = ''bob'', score = NaN, camera = ''cam1'',
                 timestamp = Some ''1970-01-01T00:00:00+00:00''\<rparr>"

definition late_event :: Event where
  "late_event = \<lparr>person = ''bob'', score = NaN, camera = ''cam1'',
                  timestamp = Some ''1970-01-01T00:00:30.001+00:00''\<rparr>"

definition early_event :: Event where
  "early_event = \<lparr>person = ''bob'', score = Finite (3 / 10), camera = ''cam1'',
                   timestamp = Some ''1970-01-01T00:00:00+00:00''\<rparr>"

definition low_event :: Event where
  "low_event = \<lparr>person = ''alice'', score = Finite 0, camera = ''cam1'', timestamp = None\<rparr>"

section \<open>Properties\<close>

subsection \<open>Concrete runs of the stand-ins\<close>

lemma event_time_t0: "event_time test_env (Some ''1970-01-01T00:00:00+00:00'') = Inr 0"
  by (simp add: event_time_def test_env_def iso_table_def)


lemma event_time_t30:
  "event_time test_env (Some ''1970-01-01T00:00:30.001+00:00'') = Inr (30001 / 1000)"
  by (simp add: event_time_def test_env_def iso_table_def)

lemma event_time_t100: "event_time test_env (Some ''1970-01-01T00:01:40+00:00'') = Inr 100"
  by (simp add: event_time_def test_env_def iso_table_def)

lemma utcnow_test: "utcnow_iso test_env = ''1970-01-01T00:01:40+00:00''"
  by (simp add: test_env_def)

lemma embed_x: "embed_image_bytes test_env (Some [face_x]) = Inr [1, 0]"
  by (simp add: embed_image_bytes_def test_env_def max_key_def face_x_def)

lemma embed_y: "embed_image_bytes test_env (Some [face_y]) = Inr [0, 1]"
  by (simp add: embed_image_bytes_def test_env_def max_key_def face_y_def)

lemma embed_undecodable:
  "embed_image_bytes test_env None = Inl (ValueError ''Cannot decode image'')"
  by (simp add: embed_image_bytes_def test_env_def)

lemma embed_no_face:
  "embed_image_bytes test_env (Some []) = Inl (ValueError ''No face detected'')"
  by (simp add: embed_image_bytes_def test_env_def)

lemma read_gallery_empty: "read_gallery s_empty = Inr []"
  by (simp add: read_gallery_def s_empty_def startup_def load_events_def)

lemma read_gallery_tie: "read_gallery s_tie = Inr [(''alice'', [1, 0]), (''bob'', [1, 0])]"
  by (simp add: read_gallery_def s_tie_def)



lemma norm_l2_axis: "norm_l2 [1, 0] = 1" "norm_l2 [0, 1] = 1"
  by (simp_all add: norm_l2_def)

lemma cosine_orth: "cosine [1, 0] [0, 1] = Inr 0"
  by (simp add: cosine_def unit_def norm_l2_axis)


lemma round_0: "round_real 0 3 = 0"
  by (simp add: round_real_def round_half_even_def)



lemma match_low:
  "match test_env (Some [face_y]) (Finite (9 / 20)) ''cam1'' s_tie =
     (Returns \<lparr>scores = [(''alice'', 0), (''bob'', 0)], best_name = ''alice'', best_score = 0,
               best_match = False, thr = Finite (9 / 20), logged = False\<rparr>, s_tie)"
  by (simp add: match_def read_gallery_tie embed_y cosine_orth max_key_def round_0)



lemma match_undecodable_tie:
  "match test_env None (Finite (9 / 20)) ''cam1'' s_tie =
     (JSONResponse (Error ''Cannot decode image'') 400, s_tie)"
  by (simp add: match_def read_gallery_tie embed_undecodable)



subsection \<open>The debounce check\<close>




subsection \<open>The debounce cache over runs of requests\<close>

lemma newer_or_same_refl: "newer_or_same v v"
  by (simp add: newer_or_same_def)

lemma newer_or_same_trans: "newer_or_same u v \<Longrightarrow> newer_or_same v w \<Longrightarrow> newer_or_same u w"
  by (auto simp: newer_or_same_def DEDUPE_WINDOW_SEC_def)

lemma should_log_cache:
  assumes "should_log env p c ts s = Inr (b, s1)" and "LAST_SEEN s k = Some v"
  shows "\<exists>v'. LAST_SEEN s1 k = Some v' \<and> newer_or_same v v'"
  using assms
  by (auto simp: should_log_def Let_def newer_or_same_def DEDUPE_WINDOW_SEC_def
      split: sum.splits option.splits if_splits)

lemma match_LAST_SEEN:
  "LAST_SEEN (snd (match env f t c s)) = LAST_SEEN s \<or>
   (\<exists>n ts b s1. should_log env n c ts s = Inr (b, s1)
      \<and> LAST_SEEN (snd (match env f t c s)) = LAST_SEEN s1)"
  by (auto simp: match_def Let_def save_events_def
      split: sum.splits if_splits prod.splits bool.splits)

lemma add_event_LAST_SEEN:
  "LAST_SEEN (snd (add_event env ev s)) = LAST_SEEN s \<or>
   (\<exists>ts b s1. should_log env (person ev) (camera ev) ts s = Inr (b, s1)
      \<and> LAST_SEEN (snd (add_event env ev s)) = LAST_SEEN s1)"
  by (auto simp: add_event_def Let_def save_events_def
      split: sum.splits if_splits prod.splits bool.splits)

lemma enroll_LAST_SEEN: "LAST_SEEN (snd (enroll env name files s)) = LAST_SEEN s"
  by (auto simp: enroll_def Let_def write_gallery_def split: sum.splits if_splits)

lemma handle_cache:
  assumes "LAST_SEEN s k = Some v"
  shows "\<exists>v'. LAST_SEEN (handle r s) k = Some v' \<and> newer_or_same v v'"
proof (cases r)
  case (Pair env req)
  show ?thesis
  proof (cases req)
    case Health
    with Pair assms show ?thesis by (simp add: health_def newer_or_same_refl)
  next
    case (Enroll name files)
    with Pair assms show ?thesis by (simp add: enroll_LAST_SEEN newer_or_same_refl)
  next
    case (Match f t c)
    from match_LAST_SEEN [of env f t c s] show ?thesis
    proof
      assume "LAST_SEEN (snd (match env f t c s)) = LAST_SEEN s"
      with Pair Match assms show ?thesis by (simp add: newer_or_same_refl)
    next
      assume "\<exists>n ts b s1. should_log env n c ts s = Inr (b, s1)
        \<and> LAST_SEEN (snd (match env f t c s)) = LAST_SEEN s1"
      then obtain n ts b s1 where
        "should_log env n c ts s = Inr (b, s1)"
        "LAST_SEEN (snd (match env f t c s)) = LAST_SEEN s1" by blast
      with should_log_cache [OF this(1) assms] Pair Match show ?thesis by simp
    qed
  next
    case ListEvents
    with Pair assms show ?thesis by (simp add: list_events_def newer_or_same_refl)
  next
    case (AddEvent ev)
    from add_event_LAST_SEEN [of env ev s] show ?thesis
    proof
      assume "LAST_SEEN (snd (add_event env ev s)) = LAST_SEEN s"
      with Pair AddEvent assms show ?thesis by (simp add: newer_or_same_refl)
    next
      assume "\<exists>ts b s1. should_log env (person ev) (camera ev) ts s = Inr (b, s1)
        \<and> LAST_SEEN (snd (add_event env ev s)) = LAST_SEEN s1"
      then obtain ts b s1 where
        "should_log env (person ev) (camera ev) ts s = Inr (b, s1)"
        "LAST_SEEN (snd (add_event env ev s)) = LAST_SEEN s1" by blast
      with should_log_cache [OF this(1) assms] Pair AddEvent show ?thesis by simp
    qed
  next
    case ClearEvents
    with Pair assms show ?thesis
      by (simp add: clear_events_def save_events_def newer_or_same_refl)
  next
    case EventsCsv
    with Pair assms show ?thesis by (simp add: events_csv_def newer_or_same_refl)
  qed
qed

lemma load_events_LAST_SEEN: "LAST_SEEN (load_events s) = LAST_SEEN s"
  by (simp add: load_events_def split: json_file.splits)

text \<open>
  C9. Over every run of requests (health, enroll, match, list, add, clear and export of
  events, each with any clock and any camera), a key of \<open>LAST_SEEN\<close> stays a key, and its
  time stays or is replaced by a strictly newer one, at least one window later; no
  timestamp a caller supplies moves it backwards.
\<close>

theorem debounce_cache_only_grows:
  assumes "LAST_SEEN s k = Some v"
  shows "\<exists>v'. LAST_SEEN (run reqs s) k = Some v' \<and> newer_or_same v v'"
  using assms
proof (induction reqs arbitrary: s v)
  case Nil
  then show ?case by (simp add: run_def newer_or_same_refl)
next
  case (Cons r reqs)
  from handle_cache [OF Cons.prems] obtain u where
    u: "LAST_SEEN (handle r s) k = Some u" "newer_or_same v u" by blast
  from Cons.IH [OF u(1)] obtain w where
    w: "LAST_SEEN (run reqs (handle r s)) k = Some w" "newer_or_same u w" by blast
  from u w show ?case
    by (auto simp: run_def intro: newer_or_same_trans)
qed

lemma add_event_unfold:
  assumes "event_time env (Some (event_ts env ev)) = Inr t"
  shows "add_event env ev s =
           (if shouldAccept (LAST_SEEN s (person ev, camera ev)) t then
              (Returns \<lparr>status = ''logged'', count = length (EVENTS s) + 1\<rparr>,
               s\<lparr>EVENTS := EVENTS s @
                    [\<lparr>d_person = person ev, d_score = py_round (score ev) 3,
                      d_camera = camera ev, d_timestamp = event_ts env ev\<rparr>],
                 LAST_SEEN := (LAST_SEEN s)((person ev, camera ev) \<mapsto> t),
                 EVENTS_PATH := Holds (EVENTS s @
                    [\<lparr>d_person = person ev, d_score = py_round (score ev) 3,
                      d_camera = camera ev, d_timestamp = event_ts env ev\<rparr>])\<rparr>)
            else (Returns \<lparr>status = ''skipped_duplicate'', count = length (EVENTS s)\<rparr>, s))"
  using assms
  by (simp add: add_event_def should_log_def shouldAccept_def save_events_def
      DEDUPE_WINDOW_SEC_def Let_def split: option.splits)

lemma event_time_late: "event_time test_env (Some (event_ts test_env late_event)) = Inr (30001 / 1000)"
  by (simp add: event_ts_def late_event_def event_time_t30)

lemma event_time_early: "event_time test_env (Some (event_ts test_env early_event)) = Inr 0"
  by (simp add: event_ts_def early_event_def event_time_t0)

lemma LAST_SEEN_s_bob: "LAST_SEEN s_bob = [(''bob'', ''cam1'') \<mapsto> 0]"
  by (simp add: s_bob_def)

lemma add_event_LAST_SEEN_unfold:
  assumes "event_time env (Some (event_ts env ev)) = Inr t"
  shows "LAST_SEEN (snd (add_event env ev s)) =
           (if shouldAccept (LAST_SEEN s (person ev, camera ev)) t
            then (LAST_SEEN s)((person ev, camera ev) \<mapsto> t) else LAST_SEEN s)"
  by (simp add: add_event_unfold [OF assms])

lemma key_late: "(person late_event, camera late_event) = (''bob'', ''cam1'')"
  by (simp add: late_event_def)

lemma key_early: "(person early_event, camera early_event) = (''bob'', ''cam1'')"
  by (simp add: early_event_def)

lemma run_bob:
  "LAST_SEEN (run [(test_env, AddEvent late_event), (test_env, AddEvent early_event),
                   (test_env, ClearEvents)] s_bob) (''bob'', ''cam1'') = Some (30001 / 1000)"
proof -
  have one: "LAST_SEEN (snd (add_event test_env late_event s_bob)) =
      [(''bob'', ''cam1'') \<mapsto> 30001 / 1000]"
    by (simp add: add_event_LAST_SEEN_unfold [OF event_time_late] key_late LAST_SEEN_s_bob
        shouldAccept_def)
  have two: "LAST_SEEN (snd (add_event test_env early_event
      (snd (add_event test_env late_event s_bob)))) = [(''bob'', ''cam1'') \<mapsto> 30001 / 1000]"
    by (simp add: add_event_LAST_SEEN_unfold [OF event_time_early] key_early one shouldAccept_def)
  show ?thesis
    by (simp add: run_def clear_events_def save_events_def two)
qed

text \<open>
  A run from a cache that holds 0 for (bob, cam1): an event at 30.001 is accepted, a
  later request stamped 0 is refused, the events are cleared; the key holds 30.001.
\<close>

theorem debounce_cache_only_grows_witness:
  "LAST_SEEN s_bob (''bob'', ''cam1'') = Some 0
   \<and> LAST_SEEN (run [(test_env, AddEvent late_event), (test_env, AddEvent early_event),
                     (test_env, ClearEvents)] s_bob) (''bob'', ''cam1'') = Some (30001 / 1000)
   \<and> newer_or_same 0 (30001 / 1000)"
proof -
  have start: "LAST_SEEN s_bob (''bob'', ''cam1'') = Some 0"
    by (simp add: LAST_SEEN_s_bob)
  from debounce_cache_only_grows [OF start,
      of "[(test_env, AddEvent late_event), (test_env, AddEvent early_event),
           (test_env, ClearEvents)]"]
  obtain v' where
    v': "LAST_SEEN (run [(test_env, AddEvent late_event), (test_env, AddEvent early_event),
           (test_env, ClearEvents)] s_bob) (''bob'', ''cam1'') = Some v'"
    and newer: "newer_or_same 0 v'"
    by blast
  from v' have "v' = 30001 / 1000" by (simp add: run_bob)
  with newer start show ?thesis by (simp add: run_bob)
qed

subsection \<open>POST /events keeps any score\<close>

text \<open>
  C3, as the code has it. \<open>add_event\<close> does not look at the score: when the timestamp
  parses, the event is appended and the events file rewritten exactly when the debounce
  check accepts, with the score \<open>round(score, 3)\<close>, and the rounding of NaN is NaN. So a
  request with a NaN score that passes the debounce check appends an event whose score
  is NaN.
\<close>

theorem add_event_keeps_any_score:
  assumes "event_time env (Some (event_ts env ev)) = Inr t"
  shows "add_event env ev s =
           (if shouldAccept (LAST_SEEN s (person ev, camera ev)) t then
              (Returns \<lparr>status = ''logged'', count = length (EVENTS s) + 1\<rparr>,
               s\<lparr>EVENTS := EVENTS s @
                    [\<lparr>d_person = person ev, d_score = py_round (score ev) 3,
                      d_camera = camera ev, d_timestamp = event_ts env ev\<rparr>],
                 LAST_SEEN := (LAST_SEEN s)((person ev, camera ev) \<mapsto> t),
                 EVENTS_PATH := Holds (EVENTS s @
                    [\<lparr>d_person = person ev, d_score = py_round (score ev) 3,
                      d_camera = camera ev, d_timestamp = event_ts env ev\<rparr>])\<rparr>)
            else (Returns \<lparr>status = ''skipped_duplicate'', count = length (EVENTS s)\<rparr>, s))
         \<and> py_round NaN 3 = NaN"
  using add_event_unfold [OF assms] by simp

text \<open>
  C3 as the specification states it fails: on the fresh service, a posted event with
  score NaN is logged, and the event appended and written to the file has score NaN.
\<close>

theorem add_event_nan_counterexample:
  "add_event test_env nan_event s_empty =
     (Returns \<lparr>status = ''logged'', count = 1\<rparr>,
      s_empty\<lparr>EVENTS := [\<lparr>d_person = ''bob'', d_score = NaN, d_camera = ''cam1'',
                          d_timestamp = ''1970-01-01T00:00:00+00:00''\<rparr>],
              LAST_SEEN := [(''bob'', ''cam1'') \<mapsto> 0],
              EVENTS_PATH := Holds [\<lparr>d_person = ''bob'', d_score = NaN, d_camera = ''cam1'',
                          d_timestamp = ''1970-01-01T00:00:00+00:00''\<rparr>]\<rparr>)"
  by (simp add: add_event_def nan_event_def event_ts_def should_log_def event_time_t0
      save_events_def s_empty_def startup_def load_events_def Let_def)

text \<open>A NaN score posted 30.001 seconds after the last accepted event of its key.\<close>

theorem add_event_keeps_any_score_witness:
  "add_event test_env late_event s_bob =
     (Returns \<lparr>status = ''logged'', count = 1\<rparr>,
      s_bob\<lparr>EVENTS := [\<lparr>d_person = ''bob'', d_score = NaN, d_camera = ''cam1'',
                        d_timestamp = ''1970-01-01T00:00:30.001+00:00''\<rparr>],
            LAST_SEEN := [(''bob'', ''cam1'') \<mapsto> 30001 / 1000],
            EVENTS_PATH := Holds [\<lparr>d_person = ''bob'', d_score = NaN, d_camera = ''cam1'',
                        d_timestamp = ''1970-01-01T00:00:30.001+00:00''\<rparr>]\<rparr>)"
  using add_event_keeps_any_score [OF event_time_late, of s_bob]
  by (simp add: shouldAccept_def late_event_def event_ts_def s_bob_def s_empty_def startup_def
      load_events_def)

subsection \<open>Enrollment\<close>








lemma dict_get_set:
  "dict_get (dict_set k v d) k' = (if k' = k then Some v else dict_get d k')"
  by (induction d) (auto simp: dict_get_def)






lemma embed_files_Inl_acc:
  "b \<in> set files \<Longrightarrow> embed_image_bytes env b = Inl e \<Longrightarrow> \<exists>e'. embed_files env files acc = Inl e'"
  by (induction files arbitrary: acc) (auto split: sum.splits)

lemma enroll_raises_on_unusable_image:
  assumes "name \<noteq> []" and "read_gallery s = Inr gal" and "b \<in> set files"
    and "embed_image_bytes env b = Inl e"
  shows "\<exists>e'. enroll env name files s = (Raises e', s)"
  using assms embed_files_Inl_acc [OF assms(3) assms(4), of "[]"]
  by (auto simp: enroll_def)

text \<open>
  C2. The code at two requests with a non-empty name: a single upload that is no image,
  and a usable image followed by an image without a face. In both the exception of
  \<open>embed_image_bytes\<close> leaves \<open>enroll\<close>: there is neither the answer "no usable images"
  nor an enrollment over the usable image.
\<close>

theorem enroll_unusable_image_raises:
  "enroll test_env ''alice'' [None] s_empty = (Raises (ValueError ''Cannot decode image''), s_empty)
   \<and> enroll test_env ''alice'' [Some [face_x], Some []] s_empty =
       (Raises (ValueError ''No face detected''), s_empty)"
  by (simp add: enroll_def read_gallery_empty embed_undecodable embed_x embed_no_face)

subsection \<open>Writes to the files\<close>

text \<open>
  A request that changes \<open>EVENTS\<close> has written the new list to the events file when it
  returns, and an enrollment that returns has written the gallery it reports.
\<close>

lemma events_written_when_changed:
  "EVENTS (handle r s) \<noteq> EVENTS s \<Longrightarrow> EVENTS_PATH (handle r s) = Holds (EVENTS (handle r s))"
proof (cases r)
  case (Pair env req)
  assume changed: "EVENTS (handle r s) \<noteq> EVENTS s"
  show ?thesis
  proof (cases req)
    case (Enroll name files)
    with Pair changed show ?thesis
      by (auto simp: enroll_def Let_def write_gallery_def split: sum.splits if_splits)
  next
    case (Match f t c)
    with Pair changed show ?thesis
      by (auto simp: match_def should_log_def Let_def save_events_def
          split: sum.splits if_splits prod.splits bool.splits option.splits)
  next
    case (AddEvent ev)
    with Pair changed show ?thesis
      by (auto simp: add_event_def should_log_def Let_def save_events_def
          split: sum.splits if_splits prod.splits bool.splits option.splits)
  next
    case ClearEvents
    with Pair show ?thesis by (simp add: clear_events_def save_events_def)
  qed (use Pair changed in \<open>simp_all add: health_def list_events_def events_csv_def\<close>)
qed

lemma gallery_written_when_enrolled:
  "enroll env name files s = (Returns resp, s') \<Longrightarrow>
     \<exists>gal. GALLERY_PATH s' = Holds gal \<and> people resp = map fst gal
       \<and> dict_get gal name \<noteq> None"
  by (auto simp: enroll_def Let_def write_gallery_def dict_get_set
      split: sum.splits if_splits)

subsection \<open>Matching\<close>

lemma max_key_nonempty: "xs \<noteq> [] \<Longrightarrow> \<exists>x. max_key key xs = Inr x"
  by (cases xs) (simp_all add: max_key_def)

lemma embed_image_bytes_error:
  "embed_image_bytes env b = Inl e \<Longrightarrow>
     e = ValueError ''Cannot decode image'' \<or> e = ValueError ''No face detected''"
  using max_key_nonempty [of "face_get env (the (imdecode env b))" area]
  by (auto simp: embed_image_bytes_def Let_def split: option.splits if_splits sum.splits)

text \<open>
  The tie-break of \<open>max\<close>: the item returned is the first of those with the greatest key.
\<close>

lemma max_from_first_greatest:
  "\<exists>pre post. b # xs = pre @ max_from key b xs # post
     \<and> list_all (\<lambda>x. key x < key (max_from key b xs)) pre
     \<and> list_all (\<lambda>x. key x \<le> key (max_from key b xs)) post"
proof (induction xs arbitrary: b)
  case Nil
  have "[b] = [] @ b # [] \<and> list_all (\<lambda>x. key x < key b) []
          \<and> list_all (\<lambda>x. key x \<le> key b) []"
    by simp
  then show ?case unfolding max_from.simps by blast
next
  case (Cons x xs)
  define b' where "b' = (if key b < key x then x else b)"
  define m where "m = max_from key b' xs"
  from Cons.IH [of b'] obtain pre post where
    dec: "b' # xs = pre @ m # post" and
    lt: "list_all (\<lambda>y. key y < key m) pre" and
    le: "list_all (\<lambda>y. key y \<le> key m) post"
    unfolding m_def by blast
  have m: "max_from key b (x # xs) = m" by (simp add: m_def b'_def)
  show ?case
  proof (cases "key b < key x")
    case True
    then have dec': "x # xs = pre @ m # post" using dec by (simp add: b'_def)
    have "key x \<le> key m"
    proof (cases pre)
      case Nil
      with dec' show ?thesis by simp
    next
      case (Cons p ps)
      with dec' lt show ?thesis by (auto intro: less_imp_le)
    qed
    with True have "key b < key m" by (rule less_le_trans)
    with lt le dec' have
      "b # x # xs = (b # pre) @ m # post \<and> list_all (\<lambda>y. key y < key m) (b # pre)
         \<and> list_all (\<lambda>y. key y \<le> key m) post"
      by simp
    then show ?thesis unfolding m by blast
  next
    case False
    then have dec': "b # xs = pre @ m # post" using dec by (simp add: b'_def)
    show ?thesis
    proof (cases pre)
      case Nil
      with dec' have "m = b" "xs = post" by simp_all
      with False le have
        "b # x # xs = [] @ m # (x # post) \<and> list_all (\<lambda>y. key y < key m) []
           \<and> list_all (\<lambda>y. key y \<le> key m) (x # post)"
        by (simp add: not_less)
      then show ?thesis unfolding m by blast
    next
      case (Cons p ps)
      with dec' have p: "p = b" "xs = ps @ m # post" by simp_all
      from Cons lt p have "key b < key m" by simp
      with False have "key x < key m" by (auto simp: not_less intro: le_less_trans)
      with Cons lt le p have
        "b # x # xs = (b # x # ps) @ m # post \<and> list_all (\<lambda>y. key y < key m) (b # x # ps)
           \<and> list_all (\<lambda>y. key y \<le> key m) post"
        by simp
      then show ?thesis unfolding m by blast
    qed
  qed
qed



text \<open>
  C6. While the gallery has no entry, every \<open>match\<close> request is answered by the error
  "gallery empty, enroll first" with status 400, which is no match result, and the state
  is left as it was; and no request made while the gallery has an entry gets that answer.
\<close>

theorem match_empty_gallery:
  assumes "read_gallery s = Inr []"
  shows "match env file t c s = (JSONResponse (Error ''gallery empty, enroll first'') 400, s)
         \<and> (\<forall>env2 file2 t2 c2 s2. read_gallery s2 \<noteq> Inr [] \<longrightarrow>
               fst (match (env2 :: ('b, 'i) env) file2 t2 c2 s2) \<noteq>
                 JSONResponse (Error ''gallery empty, enroll first'') 400)"
proof
  show "match env file t c s = (JSONResponse (Error ''gallery empty, enroll first'') 400, s)"
    using assms by (simp add: match_def)
next
  show "\<forall>env2 file2 t2 c2 s2. read_gallery s2 \<noteq> Inr [] \<longrightarrow>
          fst (match (env2 :: ('b, 'i) env) file2 t2 c2 s2) \<noteq>
            JSONResponse (Error ''gallery empty, enroll first'') 400"
  proof (intro allI impI)
    fix env2 :: "('b, 'i) env" and file2 t2 c2 s2
    assume ne: "read_gallery s2 \<noteq> Inr []"
    show "fst (match env2 file2 t2 c2 s2) \<noteq>
            JSONResponse (Error ''gallery empty, enroll first'') 400"
    proof (cases "read_gallery s2")
      case (Inl e)
      then show ?thesis by (simp add: match_def)
    next
      case (Inr gal)
      with ne have gal: "gal \<noteq> []" by simp
      show ?thesis
      proof (cases "embed_image_bytes env2 file2")
        case (Inl e)
        from embed_image_bytes_error [OF Inl] Inr gal Inl show ?thesis
          by (auto simp: match_def)
      next
        case (Inr q)
        with \<open>read_gallery s2 = Inr gal\<close> gal show ?thesis
          by (auto simp: match_def Let_def split: sum.splits prod.splits bool.splits)
      qed
    qed
  qed
qed

text \<open>
  A usable image against the fresh service, and the same threshold and camera against a
  gallery of two.
\<close>

theorem match_empty_gallery_witness:
  "match test_env (Some [face_x]) (Finite (9 / 20)) ''cam1'' s_empty =
     (JSONResponse (Error ''gallery empty, enroll first'') 400, s_empty)
   \<and> fst (match test_env (Some [face_y]) (Finite (9 / 20)) ''cam1'' s_tie) \<noteq>
       JSONResponse (Error ''gallery empty, enroll first'') 400"
proof -
  have ne: "read_gallery s_tie \<noteq> Inr []" by (simp add: read_gallery_tie)
  note th = match_empty_gallery [OF read_gallery_empty,
      of test_env "Some [face_x]" "Finite (9 / 20)" "''cam1''"]
  from th have others: "\<forall>env2 file2 t2 c2 s2. read_gallery s2 \<noteq> Inr [] \<longrightarrow>
      fst (match (env2 :: (face list option, face list) env) file2 t2 c2 s2) \<noteq>
        JSONResponse (Error ''gallery empty, enroll first'') 400"
    by (rule conjunct2)
  from others ne
  have other: "fst (match test_env (Some [face_y]) (Finite (9 / 20)) ''cam1'' s_tie) \<noteq>
      JSONResponse (Error ''gallery empty, enroll first'') 400"
    by blast
  from th have first: "match test_env (Some [face_x]) (Finite (9 / 20)) ''cam1'' s_empty =
      (JSONResponse (Error ''gallery empty, enroll first'') 400, s_empty)"
    by (rule conjunct1)
  from first other show ?thesis by (rule conjI)
qed

text \<open>
  C10. \<open>match\<close> looks at the gallery before it touches the upload: while the gallery has
  no entry, an upload that \<open>embed_image_bytes\<close> refuses (no image, or no face) is
  answered by the empty-gallery error, which differs from the answer the refused upload
  gets, with the same arguments, when the gallery has an entry.
\<close>

theorem match_empty_gallery_first:
  assumes "read_gallery s = Inr []" and "embed_image_bytes env file = Inl e"
  shows "match env file t c s = (JSONResponse (Error ''gallery empty, enroll first'') 400, s)
         \<and> JSONResponse (Error (str_of_exn e)) 400 \<noteq>
             (JSONResponse (Error ''gallery empty, enroll first'') 400 :: match_response result)
         \<and> (\<forall>s2 gal. read_gallery s2 = Inr gal \<and> gal \<noteq> [] \<longrightarrow>
               match env file t c s2 = (JSONResponse (Error (str_of_exn e)) 400, s2))"
  using assms embed_image_bytes_error [OF assms(2)]
  by (auto simp: match_def)

text \<open>Bytes that are no image: against the fresh service, and against a gallery of two.\<close>

theorem match_empty_gallery_first_witness:
  "match test_env None (Finite (9 / 20)) ''cam1'' s_empty =
     (JSONResponse (Error ''gallery empty, enroll first'') 400, s_empty)
   \<and> match test_env None (Finite (9 / 20)) ''cam1'' s_tie =
     (JSONResponse (Error ''Cannot decode image'') 400, s_tie)"
proof -
  have ne: "read_gallery s_tie = Inr [(''alice'', [1, 0]), (''bob'', [1, 0])]
            \<and> [(''alice'', [1, 0 :: real]), (''bob'', [1, 0])] \<noteq> []"
    by (simp add: read_gallery_tie)
  from match_empty_gallery_first [OF read_gallery_empty embed_undecodable,
      of "Finite (9 / 20)" "''cam1''"] ne
  show ?thesis by (simp add: match_undecodable_tie)
qed

text \<open>
  C7. A \<open>match\<close> request that returns with \<open>match\<close> false (the best score is below the
  threshold) leaves the whole state as it was, so it appends no event and writes no
  file, and it reports \<open>logged\<close> false. An explicit \<open>POST /events\<close> after it, with any
  score, does append its event when the debounce check accepts it.
\<close>

theorem match_no_match_no_event:
  assumes "match env file t c s = (Returns resp, s')" and "\<not> best_match resp"
  shows "s' = s \<and> \<not> logged resp
         \<and> (\<forall>env2 ev u.
               event_time (env2 :: ('b, 'i) env) (Some (event_ts env2 ev)) = Inr u
               \<and> shouldAccept (LAST_SEEN s' (person ev, camera ev)) u \<longrightarrow>
               EVENTS (snd (add_event env2 ev s')) =
                 EVENTS s @ [\<lparr>d_person = person ev, d_score = py_round (score ev) 3,
                              d_camera = camera ev, d_timestamp = event_ts env2 ev\<rparr>])"
proof -
  from assms have same: "s' = s" and quiet: "\<not> logged resp"
    by (auto simp: match_def Let_def split: sum.splits if_splits prod.splits bool.splits)
  have "EVENTS (snd (add_event env2 ev s)) =
          EVENTS s @ [\<lparr>d_person = person ev, d_score = py_round (score ev) 3,
                       d_camera = camera ev, d_timestamp = event_ts env2 ev\<rparr>]"
    if "event_time env2 (Some (event_ts env2 ev)) = Inr u"
      and "shouldAccept (LAST_SEEN s (person ev, camera ev)) u"
    for env2 :: "('b, 'i) env" and ev u
    using that by (simp add: add_event_unfold [OF that(1)])
  with same quiet show ?thesis by blast
qed

text \<open>
  A query orthogonal to both entries of the gallery scores 0, below the threshold 9/20;
  the same low score posted to \<open>/events\<close> afterwards is logged.
\<close>

theorem match_no_match_no_event_witness:
  "match test_env (Some [face_y]) (Finite (9 / 20)) ''cam1'' s_tie =
     (Returns \<lparr>scores = [(''alice'', 0), (''bob'', 0)], best_name = ''alice'', best_score = 0,
               best_match = False, thr = Finite (9 / 20), logged = False\<rparr>, s_tie)
   \<and> EVENTS s_tie = []
   \<and> EVENTS (snd (add_event test_env low_event s_tie)) =
       [\<lparr>d_person = ''alice'', d_score = Finite 0, d_camera = ''cam1'',
         d_timestamp = ''1970-01-01T00:01:40+00:00''\<rparr>]"
proof -
  have quiet: "\<not> best_match \<lparr>scores = [(''alice'', 0), (''bob'', 0)], best_name = ''alice'',
      best_score = 0, best_match = False, thr = Finite (9 / 20), logged = False\<rparr>"
    by simp
  have ts: "event_ts test_env low_event = ''1970-01-01T00:01:40+00:00''"
    by (simp add: event_ts_def low_event_def utcnow_test)
  have time: "event_time test_env (Some (event_ts test_env low_event)) = Inr 100"
    by (simp add: ts event_time_t100)
  have fresh: "LAST_SEEN s_tie = Map.empty" and none: "EVENTS s_tie = []"
    by (simp_all add: s_tie_def s_empty_def startup_def load_events_def)
  have fields: "person low_event = ''alice''" "camera low_event = ''cam1''"
    "score low_event = Finite 0"
    by (simp_all add: low_event_def)
  have accept: "shouldAccept (LAST_SEEN s_tie (person low_event, camera low_event)) 100"
    by (simp add: fresh shouldAccept_def)
  from match_no_match_no_event [OF match_low quiet] time accept
  have "EVENTS (snd (add_event test_env low_event s_tie)) =
      EVENTS s_tie @ [\<lparr>d_person = person low_event, d_score = py_round (score low_event) 3,
                        d_camera = camera low_event,
                        d_timestamp = event_ts test_env low_event\<rparr>]"
    by blast
  then have "EVENTS (snd (add_event test_env low_event s_tie)) =
      [\<lparr>d_person = ''alice'', d_score = Finite 0, d_camera = ''cam1'',
        d_timestamp = ''1970-01-01T00:01:40+00:00''\<rparr>]"
    by (simp add: none ts fields round_0)
  with match_low none show ?thesis by simp
qed

end
